theory Spec2Isabelle
  imports Complex_Main
begin

section \<open>Cells and tables\<close>

text \<open>
  The dashboard keeps its data in pandas tables. A cell of a table built from the JSON
  records of the API is a string, a number, a boolean or missing; the cleaning step adds
  time points. \<open>NaN\<close> stands for both \<open>None\<close> and the float \<open>nan\<close>, \<open>NaT\<close> is the
  missing time point. Float values are exact reals here: rounding, overflow and the
  infinities of \<open>float64\<close> are left out. A \<open>Timestamp\<close> holds nanoseconds since
  1970-01-01, as pandas stores it. Columns are treated cell by cell, each cell converted
  as the Python object it is.
\<close>

datatype number = PyInt int | PyFloat real

datatype cell = NaN | NaT | Str string | Num number | PyBool bool | Timestamp int

datatype pd_error = ValueError | KeyError string | TypeError

text \<open>
  A table has a row index (the row labels) and named columns in order. A table with
  no column can still have rows, so the index is kept apart from the columns.
\<close>

record table =
  index :: "nat list"
  columns :: "(string \<times> cell list) list"

definition wf_table :: "table \<Rightarrow> bool" where
  "wf_table df \<longleftrightarrow>
     distinct (map fst (columns df)) \<and>
     list_all (\<lambda>col. length (snd col) = length (index df)) (columns df)"

text \<open>\<open>pd.DataFrame()\<close>: no row and no column.\<close>

definition DataFrame_empty :: table where
  "DataFrame_empty = \<lparr>index = [], columns = []\<rparr>"

fun isna :: "cell \<Rightarrow> bool" where
  "isna NaN = True"
| "isna NaT = True"
| "isna _ = False"

text \<open>\<open>df[name]\<close> reads a column (\<open>None\<close> is the \<open>KeyError\<close> of pandas).\<close>

definition getitem :: "table \<Rightarrow> string \<Rightarrow> cell list option" where
  "getitem df name = map_of (columns df) name"

text \<open>\<open>df[name] = values\<close> replaces the column of that name where it stands, or
  appends a new column at the end.\<close>

fun set_column :: "string \<Rightarrow> cell list \<Rightarrow> (string \<times> cell list) list \<Rightarrow> (string \<times> cell list) list" where
  "set_column k v [] = [(k, v)]"
| "set_column k v (col # rest) =
     (if fst col = k then (k, v) # rest else col # set_column k v rest)"

definition setitem :: "table \<Rightarrow> string \<Rightarrow> cell list \<Rightarrow> table" where
  "setitem df name v = df\<lparr>columns := set_column name v (columns df)\<rparr>"

subsection \<open>Selecting rows\<close>

text \<open>\<open>df[mask]\<close> keeps the rows whose mask entry is true, in their order, in the
  index and in every column.\<close>

definition take_rows :: "bool list \<Rightarrow> 'a list \<Rightarrow> 'a list" where
  "take_rows m xs = map snd (filter fst (zip m xs))"

definition boolean_index :: "table \<Rightarrow> bool list \<Rightarrow> table" where
  "boolean_index df m =
     \<lparr>index = take_rows m (index df),
      columns = map (\<lambda>col. (fst col, take_rows m (snd col))) (columns df)\<rparr>"

text \<open>\<open>df.dropna()\<close>: a row stays when none of its cells is missing.\<close>

definition notna_rows :: "table \<Rightarrow> bool list" where
  "notna_rows df =
     foldr (\<lambda>col m. map2 (\<lambda>c b. \<not> isna c \<and> b) (snd col) m)
       (columns df) (replicate (length (index df)) True)"

definition dropna :: "table \<Rightarrow> table" where
  "dropna df = boolean_index df (notna_rows df)"

subsection \<open>\<open>pd.to_datetime(series, format='%Y')\<close>\<close>

definition is_digit :: "char \<Rightarrow> bool" where
  "is_digit c \<longleftrightarrow> 48 \<le> (of_char c :: nat) \<and> (of_char c :: nat) \<le> 57"

definition digit_val :: "char \<Rightarrow> nat" where
  "digit_val c = of_char c - 48"

text \<open>The directive \<open>%Y\<close> matches exactly four digits, and nothing may follow.\<close>

fun strptime_Y :: "string \<Rightarrow> nat option" where
  "strptime_Y [a, b, c, d] =
     (if is_digit a \<and> is_digit b \<and> is_digit c \<and> is_digit d
      then Some (1000 * digit_val a + 100 * digit_val b + 10 * digit_val c + digit_val d)
      else None)"
| "strptime_Y _ = None"

definition days_before_year :: "int \<Rightarrow> int" where
  "days_before_year y =
     365 * (y - 1) + (y - 1) div 4 - (y - 1) div 100 + (y - 1) div 400"

definition year_start_ns :: "int \<Rightarrow> int" where
  "year_start_ns y = (days_before_year y - days_before_year 1970) * 86400 * 1000000000"

text \<open>A 64-bit count of nanoseconds reaches from 1677-09-21 to 2262-04-11, so the
  first of January is representable for the years 1678 to 2262.\<close>

definition year_in_bounds :: "int \<Rightarrow> bool" where
  "year_in_bounds y \<longleftrightarrow> 1678 \<le> y \<and> y \<le> 2262"

text \<open>
  With the default \<open>errors='raise'\<close> a value that does not match raises \<open>ValueError\<close>
  (and so does a year out of bounds). A missing value becomes \<open>NaT\<close>. An integer is
  matched through its decimal text, which has four digits from 1000 to 9999; the text
  of a float or of a boolean never matches. (pandas converts a column of float type as
  a whole before it matches; that path is outside the model, and no statement below is
  about a year given as a float.)
\<close>

fun to_datetime_cell :: "cell \<Rightarrow> pd_error + cell" where
  "to_datetime_cell NaN = Inr NaT"
| "to_datetime_cell NaT = Inr NaT"
| "to_datetime_cell (Str s) =
     (case strptime_Y s of
        None \<Rightarrow> Inl ValueError
      | Some y \<Rightarrow> if year_in_bounds (int y) then Inr (Timestamp (year_start_ns (int y)))
                  else Inl ValueError)"
| "to_datetime_cell (Num (PyInt n)) =
     (if year_in_bounds n then Inr (Timestamp (year_start_ns n)) else Inl ValueError)"
| "to_datetime_cell (Num (PyFloat r)) = Inl ValueError"
| "to_datetime_cell (PyBool b) = Inl ValueError"
| "to_datetime_cell (Timestamp t) = Inr (Timestamp t)"

fun to_datetime :: "cell list \<Rightarrow> pd_error + cell list" where
  "to_datetime [] = Inr []"
| "to_datetime (c # cs) =
     (case to_datetime_cell c of
        Inl e \<Rightarrow> Inl e
      | Inr d \<Rightarrow> (case to_datetime cs of Inl e \<Rightarrow> Inl e | Inr ds \<Rightarrow> Inr (d # ds)))"

subsection \<open>\<open>pd.to_numeric(series, errors='coerce')\<close>\<close>

text \<open>
  How pandas reads a number out of a string is a parameter of the model: \<open>P s\<close> is the
  number read from \<open>s\<close>, or \<open>None\<close> when \<open>s\<close> is no number (or spells \<open>nan\<close>).
\<close>

type_synonym parser = "string \<Rightarrow> number option"

fun coerce_cell :: "parser \<Rightarrow> cell \<Rightarrow> cell" where
  "coerce_cell P NaN = NaN"
| "coerce_cell P NaT = NaN"
| "coerce_cell P (Str s) = (case P s of None \<Rightarrow> NaN | Some n \<Rightarrow> Num n)"
| "coerce_cell P (Num n) = Num n"
| "coerce_cell P (PyBool b) = PyBool b"
| "coerce_cell P (Timestamp t) = NaN"

text \<open>A column of time points is not parsed: its 64-bit values are read as integers
  (\<open>NaT\<close> is the least 64-bit integer).\<close>

fun is_datetime_cell :: "cell \<Rightarrow> bool" where
  "is_datetime_cell (Timestamp t) = True"
| "is_datetime_cell NaT = True"
| "is_datetime_cell _ = False"

fun view_int64 :: "cell \<Rightarrow> cell" where
  "view_int64 (Timestamp t) = Num (PyInt t)"
| "view_int64 NaT = Num (PyInt (- 9223372036854775808))"
| "view_int64 c = c"

text \<open>The converted column has one type: floats as soon as one value is a float or
  missing, else integers as soon as one value is an integer, else booleans.\<close>

fun needs_float :: "cell \<Rightarrow> bool" where
  "needs_float (Num (PyFloat r)) = True"
| "needs_float NaN = True"
| "needs_float _ = False"

fun is_int_cell :: "cell \<Rightarrow> bool" where
  "is_int_cell (Num (PyInt i)) = True"
| "is_int_cell _ = False"

fun as_float :: "cell \<Rightarrow> cell" where
  "as_float (Num (PyInt i)) = Num (PyFloat (of_int i))"
| "as_float (PyBool b) = Num (PyFloat (if b then 1 else 0))"
| "as_float c = c"

fun as_int :: "cell \<Rightarrow> cell" where
  "as_int (PyBool b) = Num (PyInt (if b then 1 else 0))"
| "as_int c = c"

definition common_type :: "cell list \<Rightarrow> cell list" where
  "common_type cs =
     (if list_ex needs_float cs then map as_float cs
      else if list_ex is_int_cell cs then map as_int cs
      else cs)"

definition to_numeric :: "parser \<Rightarrow> cell list \<Rightarrow> cell list" where
  "to_numeric P cs =
     (if list_all is_datetime_cell cs then map view_int64 cs
      else common_type (map (coerce_cell P) cs))"

section \<open>The cleaning step of \<open>main\<close>\<close>

definition col_a_o :: string where
  "col_a_o = ''a_o''"

text \<open>The name of the derived year column (A, n with tilde, o), in UTF-8.\<close>

definition col_Anio :: string where
  "col_Anio = [CHR ''A'', CHR 0xC3, CHR 0xB1, CHR ''o'']"

definition categorical :: "string list" where
  "categorical = [''departamento'', ''municipio'']"

text \<open>
  \<^verbatim>\<open>if 'a_o' in df.columns: df[col_Anio] = pd.to_datetime(df['a_o'], format='%Y')\<close>
\<close>

definition derive_year :: "table \<Rightarrow> pd_error + table" where
  "derive_year df =
     (case getitem df col_a_o of
        None \<Rightarrow> Inr df
      | Some cs \<Rightarrow>
          (case to_datetime cs of
             Inl e \<Rightarrow> Inl e
           | Inr ds \<Rightarrow> Inr (setitem df col_Anio ds)))"

text \<open>
  \<^verbatim>\<open>for col in df_clean.columns:
      if col not in ['departamento', 'municipio']:
          df_clean[col] = pd.to_numeric(df_clean[col], errors='coerce')\<close>
\<close>

fun coerce_columns :: "parser \<Rightarrow> string list \<Rightarrow> table \<Rightarrow> pd_error + table" where
  "coerce_columns P [] df = Inr df"
| "coerce_columns P (col # rest) df =
     (if col \<notin> set categorical
      then (case getitem df col of
              None \<Rightarrow> Inl (KeyError col)
            | Some cs \<Rightarrow> coerce_columns P rest (setitem df col (to_numeric P cs)))
      else coerce_columns P rest df)"

text \<open>Lines 123 to 130: the table \<open>df_clean\<close> made from the raw table \<open>df\<close>.\<close>

definition clean :: "parser \<Rightarrow> table \<Rightarrow> pd_error + table" where
  "clean P df =
     (case derive_year df of
        Inl e \<Rightarrow> Inl e
      | Inr df1 \<Rightarrow>
          (let df_clean = dropna df1
           in coerce_columns P (map fst (columns df_clean)) df_clean))"

subsection \<open>The step on the session\<close>

text \<open>
  \<open>st.session_state\<close> maps names to table objects. Two names can hold the same object,
  and \<open>df[...] = ...\<close> changes the object itself, so objects live in a store and the
  session holds references into it. \<open>next_ref\<close> is the first reference not yet in use.
\<close>

record app_state =
  heap :: "nat \<Rightarrow> table"
  next_ref :: nat
  session_state :: "string \<Rightarrow> nat option"


text \<open>
  Lines 106 to 114: a loaded table is stored under \<open>'df'\<close> only when it is not empty
  (\<open>df.empty\<close>: no row or no column).
\<close>

definition empty_df :: "table \<Rightarrow> bool" where
  "empty_df df \<longleftrightarrow> index df = [] \<or> columns df = []"

definition main_store_loaded :: "table \<Rightarrow> app_state \<Rightarrow> app_state" where
  "main_store_loaded df s =
     (if \<not> empty_df df
      then \<lparr>heap = (heap s)(next_ref s := df),
            next_ref = Suc (next_ref s),
            session_state = (session_state s)(''df'' \<mapsto> next_ref s)\<rparr>
      else s)"

section \<open>Filtering by division\<close>

text \<open>
  \<open>==\<close> between a cell and a value, as Python compares the objects: strings with
  strings, numbers and booleans by value, time points with time points; a missing value
  equals nothing.
\<close>

fun num_value :: "cell \<Rightarrow> real option" where
  "num_value (Num (PyInt i)) = Some (of_int i)"
| "num_value (Num (PyFloat r)) = Some r"
| "num_value (PyBool b) = Some (if b then 1 else 0)"
| "num_value _ = None"

fun py_eq :: "cell \<Rightarrow> cell \<Rightarrow> bool" where
  "py_eq (Str s) (Str t) = (s = t)"
| "py_eq (Timestamp s) (Timestamp t) = (s = t)"
| "py_eq a b =
     (case (num_value a, num_value b) of (Some x, Some y) \<Rightarrow> x = y | _ \<Rightarrow> False)"

text \<open>Line 143: \<^verbatim>\<open>df_clean[df_clean['departamento'] == departamento_filter]\<close>\<close>

definition df_filtered :: "table \<Rightarrow> cell \<Rightarrow> pd_error + table" where
  "df_filtered df_clean departamento_filter =
     (case getitem df_clean ''departamento'' of
        None \<Rightarrow> Inl (KeyError ''departamento'')
      | Some cs \<Rightarrow> Inr (boolean_index df_clean (map (\<lambda>c. py_eq c departamento_filter) cs)))"

section \<open>Mean per division, ranked\<close>

subsection \<open>\<open>groupby(key)[metric].mean()\<close>\<close>

text \<open>
  The group means are accumulated in one pass over the rows: a sum and a count of the
  values seen for each key. A row whose key is missing belongs to no group; a missing
  value adds nothing to the sum nor to the count of its group.
\<close>

type_synonym group = "cell \<times> real \<times> nat"

fun add_value :: "cell \<Rightarrow> real \<times> nat \<Rightarrow> real \<times> nat" where
  "add_value v (s, n) = (case num_value v of None \<Rightarrow> (s, n) | Some x \<Rightarrow> (s + x, Suc n))"

fun upd_group :: "cell \<Rightarrow> cell \<Rightarrow> group list \<Rightarrow> group list" where
  "upd_group k v [] = [(k, add_value v (0, 0))]"
| "upd_group k v (g # gs) =
     (if py_eq (fst g) k then (fst g, add_value v (snd g)) # gs else g # upd_group k v gs)"

definition group_sums :: "(cell \<times> cell) list \<Rightarrow> group list" where
  "group_sums rows = foldl (\<lambda>gs row. if isna (fst row) then gs else upd_group (fst row) (snd row) gs) [] rows"

fun group_mean :: "group \<Rightarrow> cell \<times> cell" where
  "group_mean (k, s, n) = (k, if n = 0 then NaN else Num (PyFloat (s / real n)))"

text \<open>Stable insertion sort for an order given as a function.\<close>

fun insert_by :: "('a \<Rightarrow> 'a \<Rightarrow> bool) \<Rightarrow> 'a \<Rightarrow> 'a list \<Rightarrow> 'a list" where
  "insert_by le x [] = [x]"
| "insert_by le x (y # ys) = (if le x y then x # y # ys else y # insert_by le x ys)"

definition sort_by :: "('a \<Rightarrow> 'a \<Rightarrow> bool) \<Rightarrow> 'a list \<Rightarrow> 'a list" where
  "sort_by le xs = foldr (insert_by le) xs []"

text \<open>
  The groups come out in the order of their keys: numbers by value, before strings in
  the order of their code points (which is the order of their UTF-8 bytes).
\<close>

fun str_le :: "string \<Rightarrow> string \<Rightarrow> bool" where
  "str_le [] t = True"
| "str_le (a # s) [] = False"
| "str_le (a # s) (b # t) =
     ((of_char a :: nat) < of_char b \<or> (a = b \<and> str_le s t))"

fun key_le :: "cell \<Rightarrow> cell \<Rightarrow> bool" where
  "key_le (Str s) (Str t) = str_le s t"
| "key_le (Str s) b = False"
| "key_le a (Str t) = True"
| "key_le (Timestamp s) (Timestamp t) = (s \<le> t)"
| "key_le (Timestamp s) b = False"
| "key_le a (Timestamp t) = True"
| "key_le a b =
     (case (num_value a, num_value b) of (Some x, Some y) \<Rightarrow> x \<le> y | _ \<Rightarrow> True)"

fun is_numeric :: "cell \<Rightarrow> bool" where
  "is_numeric (Num n) = True"
| "is_numeric (PyBool b) = True"
| "is_numeric _ = False"

definition groupby_mean :: "cell list \<Rightarrow> cell list \<Rightarrow> pd_error + (cell \<times> cell) list" where
  "groupby_mean keys vals =
     (if list_all (\<lambda>v. is_numeric v \<or> v = NaN) vals
      then Inr (map group_mean (sort_by (\<lambda>g h. key_le (fst g) (fst h)) (group_sums (zip keys vals))))
      else Inl TypeError)"

subsection \<open>\<open>sort_values(ascending=False)\<close> and \<open>head(10)\<close>\<close>

text \<open>
  Larger values first, missing values last. pandas does not fix the order of entries
  with equal values; here they keep their order.
\<close>

fun desc_le :: "cell \<Rightarrow> cell \<Rightarrow> bool" where
  "desc_le a b =
     (case (num_value a, num_value b) of
        (Some x, Some y) \<Rightarrow> y \<le> x
      | (Some x, None) \<Rightarrow> True
      | (None, Some y) \<Rightarrow> False
      | (None, None) \<Rightarrow> True)"

definition sort_values_desc :: "(cell \<times> cell) list \<Rightarrow> (cell \<times> cell) list" where
  "sort_values_desc ser = sort_by (\<lambda>a b. desc_le (snd a) (snd b)) ser"

definition head :: "nat \<Rightarrow> 'a list \<Rightarrow> 'a list" where
  "head n ser = take n ser"

text \<open>
  Line 164:
  \<^verbatim>\<open>df_clean.groupby('departamento')[selected_metric].mean().sort_values(ascending=False).head(10)\<close>
\<close>

definition deptos_avg :: "table \<Rightarrow> string \<Rightarrow> pd_error + (cell \<times> cell) list" where
  "deptos_avg df_clean selected_metric =
     (case getitem df_clean ''departamento'' of
        None \<Rightarrow> Inl (KeyError ''departamento'')
      | Some keys \<Rightarrow>
          (case getitem df_clean selected_metric of
             None \<Rightarrow> Inl (KeyError selected_metric)
           | Some vals \<Rightarrow>
               (case groupby_mean keys vals of
                  Inl e \<Rightarrow> Inl e
                | Inr means \<Rightarrow> Inr (head 10 (sort_values_desc means)))))"

section \<open>Loading from the API\<close>

text \<open>
  Python exceptions, by the classes the handlers of \<open>load_data_from_api\<close> tell apart:
  a \<open>requests.exceptions.RequestException\<close> (connection errors, timeouts, the
  \<open>HTTPError\<close> of \<open>raise_for_status\<close>), any other \<open>Exception\<close>, and a \<open>BaseException\<close>
  that is no \<open>Exception\<close> (\<open>KeyboardInterrupt\<close>, \<open>SystemExit\<close>). Each carries its text.
\<close>

datatype exn = RequestException string | OtherException string | BaseException string

datatype json =
    JNull | JBool bool | JInt int | JFloat real | JStr string
  | JArray "json list" | JObject "(string \<times> json) list"

text \<open>
  The response of the server as the function uses it: the status, the reason phrase
  and address for the text of an \<open>HTTPError\<close>, and what \<open>response.json()\<close> does, which
  is to return the decoded body or to raise.
\<close>

record response =
  status_code :: nat
  reason :: string
  url :: string
  json_result :: "exn + json"

fun str_nat :: "nat \<Rightarrow> string" where
  "str_nat n =
     (if n < 10 then [char_of (48 + n)]
      else str_nat (n div 10) @ [char_of (48 + n mod 10)])"

declare str_nat.simps [simp del]

definition str_int :: "int \<Rightarrow> string" where
  "str_int i = (if i < 0 then CHR ''-'' # str_nat (nat (- i)) else str_nat (nat i))"

text \<open>\<open>response.raise_for_status()\<close> raises for the statuses 400 to 599 only.\<close>

definition raise_for_status :: "response \<Rightarrow> exn + unit" where
  "raise_for_status resp =
     (if 400 \<le> status_code resp \<and> status_code resp < 500
      then Inl (RequestException
             (str_nat (status_code resp) @ '' Client Error: '' @ reason resp @ '' for url: '' @ url resp))
      else if 500 \<le> status_code resp \<and> status_code resp < 600
      then Inl (RequestException
             (str_nat (status_code resp) @ '' Server Error: '' @ reason resp @ '' for url: '' @ url resp))
      else Inr ())"

subsection \<open>\<open>pd.DataFrame(data)\<close>\<close>

text \<open>
  The API answers with an array of flat records. For such a payload the table has one
  row per record and one column per key, in the order in which the keys first appear; a
  record without a key has a missing cell there. A column of integers with a missing
  cell or a float becomes a column of floats. An object of the payload is taken as the
  Python dictionary it decodes to, its keys distinct. What the constructor does with
  any other payload is the parameter \<open>other\<close>.
\<close>

fun scalar_cell :: "json \<Rightarrow> cell option" where
  "scalar_cell JNull = Some NaN"
| "scalar_cell (JBool b) = Some (PyBool b)"
| "scalar_cell (JInt i) = Some (Num (PyInt i))"
| "scalar_cell (JFloat r) = Some (Num (PyFloat r))"
| "scalar_cell (JStr s) = Some (Str s)"
| "scalar_cell (JArray js) = None"
| "scalar_cell (JObject kvs) = None"

fun flat_record :: "json \<Rightarrow> (string \<times> cell) list option" where
  "flat_record (JObject kvs) =
     those (map (\<lambda>kv. map_option (Pair (fst kv)) (scalar_cell (snd kv))) kvs)"
| "flat_record _ = None"

fun flat_records :: "json \<Rightarrow> (string \<times> cell) list list option" where
  "flat_records (JArray js) = those (map flat_record js)"
| "flat_records _ = None"

definition first_seen :: "string list \<Rightarrow> string list" where
  "first_seen ks = rev (remdups (rev ks))"

fun is_number_or_nan :: "cell \<Rightarrow> bool" where
  "is_number_or_nan (Num n) = True"
| "is_number_or_nan NaN = True"
| "is_number_or_nan _ = False"

definition infer_dtype :: "cell list \<Rightarrow> cell list" where
  "infer_dtype cs =
     (if list_all is_number_or_nan cs \<and> list_ex is_int_cell cs \<and> list_ex needs_float cs
      then map as_float cs else cs)"

definition from_records :: "(string \<times> cell) list list \<Rightarrow> table" where
  "from_records recs =
     \<lparr>index = [0..<length recs],
      columns = map (\<lambda>k. (k, infer_dtype (map (\<lambda>r. case map_of r k of None \<Rightarrow> NaN | Some c \<Rightarrow> c) recs)))
                  (first_seen (concat (map (map fst) recs)))\<rparr>"

definition DataFrame :: "(json \<Rightarrow> exn + table) \<Rightarrow> json \<Rightarrow> exn + table" where
  "DataFrame other data =
     (case flat_records data of
        Some recs \<Rightarrow> Inr (from_records recs)
      | None \<Rightarrow> other data)"

subsection \<open>\<open>load_data_from_api\<close>\<close>

text \<open>
  \<open>requests.get\<close> is the parameter \<open>get\<close>: for an address it raises or gives a response.
  The function returns the table together with what it showed through \<open>st.error\<close>. The
  two handlers catch every \<open>Exception\<close>; only a \<open>BaseException\<close> leaves the function.
\<close>

definition api_url :: "int \<Rightarrow> string" where
  "api_url limit = ''https://www.datos.gov.co/resource/nudc-7mev.json?$limit='' @ str_int limit"

definition msg_conexion :: string where
  "msg_conexion = ''Error de conexi'' @ [CHR 0xC3, CHR 0xB3] @ ''n: ''"

definition msg_inesperado :: string where
  "msg_inesperado = ''Error inesperado: ''"

fun handlers :: "exn \<Rightarrow> (exn + table) \<times> string list" where
  "handlers (RequestException e) = (Inr DataFrame_empty, [msg_conexion @ e])"
| "handlers (OtherException e) = (Inr DataFrame_empty, [msg_inesperado @ e])"
| "handlers (BaseException e) = (Inl (BaseException e), [])"

text \<open>The body of the \<open>try\<close>: the first call that raises ends it.\<close>

definition try_body ::
  "(string \<Rightarrow> exn + response) \<Rightarrow> (json \<Rightarrow> exn + table) \<Rightarrow> int \<Rightarrow> exn + table" where
  "try_body get other limit =
     (case get (api_url limit) of
        Inl e \<Rightarrow> Inl e
      | Inr resp \<Rightarrow>
          (case raise_for_status resp of
             Inl e \<Rightarrow> Inl e
           | Inr u \<Rightarrow>
               (case json_result resp of
                  Inl e \<Rightarrow> Inl e
                | Inr data \<Rightarrow> DataFrame other data)))"

definition load_data_from_api ::
  "(string \<Rightarrow> exn + response) \<Rightarrow> (json \<Rightarrow> exn + table) \<Rightarrow> int \<Rightarrow> (exn + table) \<times> string list" where
  "load_data_from_api get other limit =
     (case try_body get other limit of
        Inr df \<Rightarrow> (Inr df, [])
      | Inl e \<Rightarrow> handlers e)"

section \<open>A number parser for the examples\<close>

text \<open>
  An instance of the parser parameter, enough to evaluate the examples: an optional
  sign, digits, and optionally a point followed by digits. Digits alone give an
  integer, a point gives a float.
\<close>

definition digits_val :: "string \<Rightarrow> nat" where
  "digits_val s = foldl (\<lambda>a c. 10 * a + digit_val c) 0 s"

definition parse_unsigned :: "string \<Rightarrow> number option" where
  "parse_unsigned s =
     (let ip = takeWhile is_digit s; rest = dropWhile is_digit s
      in if rest = [] then (if ip = [] then None else Some (PyInt (int (digits_val ip))))
         else if hd rest = CHR ''.'' \<and> list_all is_digit (tl rest) \<and> (ip \<noteq> [] \<or> tl rest \<noteq> [])
         then Some (PyFloat (real (digits_val ip) + real (digits_val (tl rest)) / 10 ^ length (tl rest)))
         else None)"

fun negate :: "number \<Rightarrow> number" where
  "negate (PyInt i) = PyInt (- i)"
| "negate (PyFloat r) = PyFloat (- r)"

fun parse_decimal :: parser where
  "parse_decimal [] = None"
| "parse_decimal (c # s) =
     (if c = CHR ''-'' then map_option negate (parse_unsigned s)
      else if c = CHR ''+'' then parse_unsigned s
      else parse_unsigned (c # s))"

section \<open>Example tables\<close>

text \<open>The scenario of two records, one with a rate that is no number.\<close>

definition ex_raw :: table where
  "ex_raw = \<lparr>index = [0, 1],
      columns = [(''a_o'', [Str ''2019'', Str ''2019'']),
                 (''departamento'', [Str ''CUNDINAMARCA'', Str ''CUNDINAMARCA'']),
                 (''tasa'', [Str ''12.5'', Str ''bad''])]\<rparr>"

definition ex_clean :: table where
  "ex_clean = \<lparr>index = [0, 1],
      columns = [(''a_o'', [Num (PyInt 2019), Num (PyInt 2019)]),
                 (''departamento'', [Str ''CUNDINAMARCA'', Str ''CUNDINAMARCA'']),
                 (''tasa'', [Num (PyFloat (25 / 2)), NaN]),
                 (col_Anio, [Num (PyInt 1546300800000000000), Num (PyInt 1546300800000000000)])]\<rparr>"


text \<open>The raw table of the example once the year column is derived.\<close>

definition ex_raw_year :: table where
  "ex_raw_year = \<lparr>index = [0, 1],
      columns = [(''a_o'', [Str ''2019'', Str ''2019'']),
                 (''departamento'', [Str ''CUNDINAMARCA'', Str ''CUNDINAMARCA'']),
                 (''tasa'', [Str ''12.5'', Str ''bad'']),
                 (col_Anio, [Timestamp 1546300800000000000, Timestamp 1546300800000000000])]\<rparr>"

text \<open>A cleaned table with two divisions and a missing rate, and its rows of one division.\<close>

definition ex_depts :: table where
  "ex_depts = \<lparr>index = [0, 1, 2, 3],
      columns = [(''departamento'', [Str ''CUNDINAMARCA'', Str ''ANTIOQUIA'', Str ''CUNDINAMARCA'', Str ''ANTIOQUIA'']),
                 (''tasa'', [Num (PyFloat 10), Num (PyFloat 4), Num (PyFloat 20), NaN])]\<rparr>"

definition ex_antioquia :: table where
  "ex_antioquia = \<lparr>index = [1, 3],
      columns = [(''departamento'', [Str ''ANTIOQUIA'', Str ''ANTIOQUIA'']),
                 (''tasa'', [Num (PyFloat 4), NaN])]\<rparr>"



text \<open>A payload of one record and its table; a response with a given status and
  body; a constructor that refuses every payload that is no array of flat records.\<close>

definition ex_record_table :: table where
  "ex_record_table = \<lparr>index = [0], columns = [(''a_o'', [Str ''2019''])]\<rparr>"

definition ex_payload :: json where
  "ex_payload = JArray [JObject [(''a_o'', JStr ''2019'')]]"

definition ex_response :: "nat \<Rightarrow> exn + json \<Rightarrow> response" where
  "ex_response status body =
     \<lparr>status_code = status, reason = ''reason'', url = api_url 50000, json_result = body\<rparr>"

definition ex_other :: "json \<Rightarrow> exn + table" where
  "ex_other data = Inl (OtherException ''DataFrame constructor not properly called!'')"





section \<open>Views used in the statements\<close>



text \<open>
  A table read by rows: row \<open>i\<close> is its label and its cells by column name. The rows of
  a well-formed table are listed in order. \<open>kept m\<close> lists the positions a mask keeps.
\<close>

definition row_of :: "table \<Rightarrow> nat \<Rightarrow> nat \<times> (string \<times> cell) list" where
  "row_of df i = (index df ! i, map (\<lambda>col. (fst col, snd col ! i)) (columns df))"

definition rows :: "table \<Rightarrow> (nat \<times> (string \<times> cell) list) list" where
  "rows df = map (row_of df) [0..<length (index df)]"

definition kept :: "bool list \<Rightarrow> nat list" where
  "kept m = filter (\<lambda>i. m ! i) [0..<length m]"






section \<open>Basic facts about the table operations\<close>


lemma length_take_rows:
  "length m = length xs \<Longrightarrow> length (take_rows m xs) = length (filter id m)"
  unfolding take_rows_def
  by (induction m xs rule: list_induct2) auto





lemma wf_boolean_index:
  assumes "wf_table df" "length m = length (index df)"
  shows "wf_table (boolean_index df m)"
  using assms unfolding wf_table_def boolean_index_def
  by (auto simp: list_all_iff length_take_rows comp_def)
























lemma take_rows_kept:
  assumes "length m = length xs"
  shows "take_rows m xs = map (\<lambda>i. xs ! i) (kept m)"
proof -
  have "zip m xs = map (\<lambda>i. (m ! i, xs ! i)) [0..<length m]"
    using assms by (intro nth_equalityI) auto
  then show ?thesis
    by (simp add: take_rows_def kept_def filter_map comp_def)
qed

lemma map_of_row:
  "map_of (map (\<lambda>col. (fst col, snd col ! i)) cols) k = map_option (\<lambda>cs. cs ! i) (map_of cols k)"
  by (induction cols) auto

lemma rows_boolean_index:
  assumes "wf_table df" and "length m = length (index df)"
  shows "rows (boolean_index df m) = map (row_of df) (kept m)"
proof -
  let ?K = "kept m"
  have idx: "index (boolean_index df m) = map (\<lambda>i. index df ! i) ?K"
    using assms(2) by (simp add: boolean_index_def take_rows_kept)
  have cols: "columns (boolean_index df m)
                = map (\<lambda>col. (fst col, map (\<lambda>i. snd col ! i) ?K)) (columns df)"
    using assms by (auto simp: boolean_index_def wf_table_def list_all_iff take_rows_kept)
  have "row_of (boolean_index df m) j = row_of df (?K ! j)" if "j < length ?K" for j
    using that by (simp add: row_of_def idx cols comp_def)
  then have "rows (boolean_index df m) = map (\<lambda>j. row_of df (?K ! j)) [0..<length ?K]"
    by (simp add: rows_def idx)
  also have "\<dots> = map (row_of df) (map (\<lambda>j. ?K ! j) [0..<length ?K])"
    by (simp add: comp_def)
  also have "\<dots> = map (row_of df) ?K"
    by (simp add: map_nth)
  finally show ?thesis .
qed


lemma handlers_Exception:
  "\<forall>m. e \<noteq> BaseException m \<Longrightarrow>
   handlers e = (Inr DataFrame_empty,
     [case e of RequestException t \<Rightarrow> msg_conexion @ t | OtherException t \<Rightarrow> msg_inesperado @ t
      | BaseException t \<Rightarrow> []])"
  by (cases e) auto



lemma length_insert_by: "length (insert_by le x xs) = Suc (length xs)"
  by (induction xs) auto





























































section \<open>The examples evaluated\<close>


lemma parse_12_5: "parse_decimal ''12.5'' = Some (PyFloat (25 / 2))"
  by (simp add: parse_unsigned_def is_digit_def digit_val_def digits_val_def)

lemma parse_bad: "parse_decimal ''bad'' = None"
  by (simp add: parse_unsigned_def is_digit_def digit_val_def digits_val_def)

lemma parse_2019: "parse_decimal ''2019'' = Some (PyInt 2019)"
  by (simp add: parse_unsigned_def is_digit_def digit_val_def digits_val_def)

lemma year_2019: "to_datetime_cell (Str ''2019'') = Inr (Timestamp 1546300800000000000)"
  by (simp add: is_digit_def digit_val_def year_in_bounds_def year_start_ns_def days_before_year_def)

lemma to_numeric_ex_a_o:
  "to_numeric parse_decimal [Str ''2019'', Str ''2019''] = [Num (PyInt 2019), Num (PyInt 2019)]"
  by (simp add: to_numeric_def common_type_def parse_2019 del: parse_decimal.simps)

lemma to_numeric_ex_tasa:
  "to_numeric parse_decimal [Str ''12.5'', Str ''bad''] = [Num (PyFloat (25 / 2)), NaN]"
  by (simp add: to_numeric_def common_type_def parse_12_5 parse_bad del: parse_decimal.simps)

lemma to_numeric_ex_year:
  "to_numeric P [Timestamp 1546300800000000000, Timestamp 1546300800000000000]
     = [Num (PyInt 1546300800000000000), Num (PyInt 1546300800000000000)]"
  by (simp add: to_numeric_def)

lemma clean_ex_raw: "clean parse_decimal ex_raw = Inr ex_clean"
  by (simp add: clean_def derive_year_def getitem_def setitem_def col_a_o_def col_Anio_def
      ex_raw_def ex_clean_def year_2019 dropna_def boolean_index_def notna_rows_def take_rows_def
      categorical_def to_numeric_ex_a_o to_numeric_ex_tasa to_numeric_ex_year
      del: to_datetime_cell.simps)


lemma getitem_ex_raw: "getitem ex_raw col_a_o = Some [Str ''2019'', Str ''2019'']"
  by (simp add: getitem_def ex_raw_def col_a_o_def)


lemma derive_year_ex_raw: "derive_year ex_raw = Inr ex_raw_year"
  unfolding derive_year_def getitem_ex_raw
  by (simp add: year_2019 setitem_def ex_raw_def ex_raw_year_def col_Anio_def
      del: to_datetime_cell.simps)

lemma wf_ex_depts: "wf_table ex_depts"
  by (simp add: wf_table_def ex_depts_def)

lemma getitem_ex_depts:
  "getitem ex_depts ''departamento''
     = Some [Str ''CUNDINAMARCA'', Str ''ANTIOQUIA'', Str ''CUNDINAMARCA'', Str ''ANTIOQUIA'']"
  by (simp add: getitem_def ex_depts_def)

lemma df_filtered_ex_depts: "df_filtered ex_depts (Str ''ANTIOQUIA'') = Inr ex_antioquia"
  unfolding df_filtered_def getitem_ex_depts
  by (simp add: boolean_index_def take_rows_def ex_depts_def ex_antioquia_def)

lemma rows_ex_antioquia:
  "rows ex_antioquia = [(1, [(''departamento'', Str ''ANTIOQUIA''), (''tasa'', Num (PyFloat 4))]),
                        (3, [(''departamento'', Str ''ANTIOQUIA''), (''tasa'', NaN)])]"
  by (simp add: rows_def row_of_def ex_antioquia_def upt_rec)



lemma DataFrame_ex_payload: "DataFrame other ex_payload = Inr ex_record_table"
  by (simp add: DataFrame_def ex_payload_def from_records_def first_seen_def infer_dtype_def
      ex_record_table_def)
















section \<open>The claims\<close>

subsection \<open>C1: missing values after cleaning\<close>




subsection \<open>C2: failures while loading\<close>

text \<open>
  C2, as amended. The claim counts every status other than 2xx as a failure, but
  \<open>raise_for_status\<close> raises for the statuses 400 to 599 only. What holds: when
  \<open>requests.get\<close> raises, or the status is between 400 and 599, or \<open>response.json()\<close>
  raises, or \<open>pd.DataFrame\<close> raises, and what is raised is an \<open>Exception\<close>, then
  \<open>load_data_from_api\<close> returns the table with no row and no column, shows exactly one
  error through \<open>st.error\<close> (the text of the exception after the prefix of its handler)
  and raises nothing.
\<close>

theorem load_failure_gives_empty_table:
  assumes "\<forall>m. e \<noteq> BaseException m"
  shows "(get (api_url limit) = Inl e
          \<or> get (api_url limit) = Inr resp \<and> raise_for_status resp = Inl e
          \<or> get (api_url limit) = Inr resp \<and> raise_for_status resp = Inr () \<and>
              json_result resp = Inl e
          \<or> get (api_url limit) = Inr resp \<and> raise_for_status resp = Inr () \<and>
              json_result resp = Inr data \<and> DataFrame other data = Inl e
          \<longrightarrow> load_data_from_api get other limit
                = (Inr DataFrame_empty,
                   [case e of RequestException t \<Rightarrow> msg_conexion @ t
                    | OtherException t \<Rightarrow> msg_inesperado @ t | BaseException t \<Rightarrow> []])) \<and>
         (get (api_url limit) = Inr resp \<and> 400 \<le> status_code resp \<and> status_code resp < 600
          \<longrightarrow> (\<exists>t. load_data_from_api get other limit = (Inr DataFrame_empty, [msg_conexion @ t])))"
proof (intro conjI impI)
  assume "get (api_url limit) = Inl e
          \<or> get (api_url limit) = Inr resp \<and> raise_for_status resp = Inl e
          \<or> get (api_url limit) = Inr resp \<and> raise_for_status resp = Inr () \<and>
              json_result resp = Inl e
          \<or> get (api_url limit) = Inr resp \<and> raise_for_status resp = Inr () \<and>
              json_result resp = Inr data \<and> DataFrame other data = Inl e"
  then have "try_body get other limit = Inl e"
    by (auto simp: try_body_def)
  with assms show "load_data_from_api get other limit
                = (Inr DataFrame_empty,
                   [case e of RequestException t \<Rightarrow> msg_conexion @ t
                    | OtherException t \<Rightarrow> msg_inesperado @ t | BaseException t \<Rightarrow> []])"
    by (simp add: load_data_from_api_def handlers_Exception)
next
  assume a: "get (api_url limit) = Inr resp \<and> 400 \<le> status_code resp \<and> status_code resp < 600"
  then have "\<exists>t. raise_for_status resp = Inl (RequestException t)"
    by (cases "status_code resp < 500") (simp_all add: raise_for_status_def)
  then obtain t where "raise_for_status resp = Inl (RequestException t)" ..
  with a have "try_body get other limit = Inl (RequestException t)"
    by (simp add: try_body_def)
  then show "\<exists>t. load_data_from_api get other limit = (Inr DataFrame_empty, [msg_conexion @ t])"
    by (simp add: load_data_from_api_def)
qed

text \<open>The four kinds of failure, each at a concrete server: a refused connection, the
  status 404, a body that is no JSON, and a payload the table constructor refuses.\<close>

theorem load_failure_gives_empty_table_witness:
  "load_data_from_api (\<lambda>u. Inl (RequestException ''Connection refused'')) ex_other 50000
     = (Inr DataFrame_empty, [msg_conexion @ ''Connection refused'']) \<and>
   (\<exists>t. load_data_from_api (\<lambda>u. Inr (ex_response 404 (Inr ex_payload))) ex_other 50000
     = (Inr DataFrame_empty, [msg_conexion @ t])) \<and>
   load_data_from_api (\<lambda>u. Inr (ex_response 200 (Inl (RequestException ''Expecting value''))))
       ex_other 50000
     = (Inr DataFrame_empty, [msg_conexion @ ''Expecting value'']) \<and>
   load_data_from_api (\<lambda>u. Inr (ex_response 200 (Inr (JInt 5)))) ex_other 50000
     = (Inr DataFrame_empty, [msg_inesperado @ ''DataFrame constructor not properly called!''])"
proof -
  have a: "load_data_from_api (\<lambda>u. Inl (RequestException ''Connection refused'')) ex_other 50000
     = (Inr DataFrame_empty, [msg_conexion @ ''Connection refused''])"
    using load_failure_gives_empty_table
      [where e = "RequestException ''Connection refused''"
         and get = "\<lambda>u. Inl (RequestException ''Connection refused'')"
         and limit = 50000 and other = ex_other]
    by simp
  have b: "\<exists>t. load_data_from_api (\<lambda>u. Inr (ex_response 404 (Inr ex_payload))) ex_other 50000
     = (Inr DataFrame_empty, [msg_conexion @ t])"
    using load_failure_gives_empty_table
      [where e = "RequestException ''x''"
         and get = "\<lambda>u. Inr (ex_response 404 (Inr ex_payload))"
         and resp = "ex_response 404 (Inr ex_payload)"
         and limit = 50000 and other = ex_other]
    by (simp add: ex_response_def)
  have c: "load_data_from_api (\<lambda>u. Inr (ex_response 200 (Inl (RequestException ''Expecting value''))))
       ex_other 50000
     = (Inr DataFrame_empty, [msg_conexion @ ''Expecting value''])"
    using load_failure_gives_empty_table
      [where e = "RequestException ''Expecting value''"
         and get = "\<lambda>u. Inr (ex_response 200 (Inl (RequestException ''Expecting value'')))"
         and resp = "ex_response 200 (Inl (RequestException ''Expecting value''))"
         and limit = 50000 and other = ex_other]
    by (simp add: ex_response_def raise_for_status_def)
  have d: "load_data_from_api (\<lambda>u. Inr (ex_response 200 (Inr (JInt 5)))) ex_other 50000
     = (Inr DataFrame_empty, [msg_inesperado @ ''DataFrame constructor not properly called!''])"
    using load_failure_gives_empty_table
      [where e = "OtherException ''DataFrame constructor not properly called!''"
         and get = "\<lambda>u. Inr (ex_response 200 (Inr (JInt 5)))"
         and resp = "ex_response 200 (Inr (JInt 5))"
         and data = "JInt 5"
         and limit = 50000 and other = ex_other]
    by (simp add: ex_response_def raise_for_status_def DataFrame_def ex_other_def)
  from a b c d show ?thesis by blast
qed

text \<open>
  C2 as it is stated fails at the status 300 with an array of one record as body: no
  exception is raised, nothing is reported and the table of one row is returned.
\<close>

theorem load_status_300_counterexample:
  "status_code (ex_response 300 (Inr ex_payload)) = 300 \<and>
   load_data_from_api (\<lambda>u. Inr (ex_response 300 (Inr ex_payload))) ex_other 50000
     = (Inr ex_record_table, []) \<and>
   index ex_record_table = [0]"
  by (simp add: load_data_from_api_def try_body_def raise_for_status_def ex_response_def
      DataFrame_ex_payload ex_record_table_def)

subsection \<open>C3: the ten largest means\<close>



subsection \<open>C4: the other columns hold numbers\<close>



subsection \<open>C5: the type of the year column\<close>

text \<open>
  C5 evaluated at the two records of the example. The year column written into the raw
  table holds time points, but the loop converts every column other than
  \<open>departamento\<close> and \<open>municipio\<close>, the year column too: in the cleaned table it holds
  the integers 1546300800000000000, the nanoseconds from 1970 to the start of 2019.
\<close>

theorem cleaned_year_column_is_integer:
  "derive_year ex_raw = Inr ex_raw_year \<and>
   getitem ex_raw_year col_Anio = Some [Timestamp 1546300800000000000, Timestamp 1546300800000000000] \<and>
   clean parse_decimal ex_raw = Inr ex_clean \<and>
   getitem ex_clean col_Anio = Some [Num (PyInt 1546300800000000000), Num (PyInt 1546300800000000000)]"
  by (simp add: derive_year_ex_raw clean_ex_raw)
     (simp add: getitem_def ex_raw_year_def ex_clean_def col_Anio_def)

subsection \<open>C6: a year that cannot be parsed\<close>




subsection \<open>C7: the rows of one division\<close>

text \<open>
  C7. For a well-formed table with the column \<open>departamento\<close> and any value, filtering
  does not raise; the result is well-formed, has the columns of the table in their order,
  and its rows are exactly the rows of the table whose \<open>departamento\<close> cell equals the
  value, in their order; when no cell equals the value the result has no row.
\<close>

theorem df_filtered_selects_rows:
  assumes "wf_table df" and "getitem df ''departamento'' = Some cs"
  shows "\<exists>out. df_filtered df v = Inr out \<and> wf_table out \<and>
           map fst (columns out) = map fst (columns df) \<and>
           rows out = filter (\<lambda>r. case map_of (snd r) ''departamento'' of
                                     Some c \<Rightarrow> py_eq c v | None \<Rightarrow> False) (rows df) \<and>
           ((\<forall>c \<in> set cs. \<not> py_eq c v) \<longrightarrow> index out = [] \<and> rows out = [])"
proof -
  let ?m = "map (\<lambda>c. py_eq c v) cs"
  let ?out = "boolean_index df ?m"
  let ?p = "\<lambda>r. case map_of (snd r) ''departamento'' of Some c \<Rightarrow> py_eq c v | None \<Rightarrow> False"
  from assms(2) have "(''departamento'', cs) \<in> set (columns df)"
    by (simp add: getitem_def map_of_SomeD)
  with assms(1) have len: "length ?m = length (index df)"
    by (auto simp: wf_table_def list_all_iff)
  have out: "df_filtered df v = Inr ?out"
    using assms(2) by (simp add: df_filtered_def)
  have wf: "wf_table ?out"
    using assms(1) len by (rule wf_boolean_index)
  have names: "map fst (columns ?out) = map fst (columns df)"
    by (simp add: boolean_index_def comp_def)
  have p: "?p (row_of df i) = ?m ! i" if "i < length (index df)" for i
    using that len assms(2) by (simp add: row_of_def map_of_row getitem_def)
  have "rows ?out = map (row_of df) (kept ?m)"
    using assms(1) len by (rule rows_boolean_index)
  also have "\<dots> = map (row_of df) (filter (\<lambda>i. ?p (row_of df i)) [0..<length (index df)])"
    unfolding kept_def len
    by (intro arg_cong [where f = "map (row_of df)"] filter_cong) (auto simp: p)
  also have "\<dots> = filter ?p (rows df)"
    by (simp add: rows_def filter_map comp_def)
  finally have rows: "rows ?out = filter ?p (rows df)" .
  have none: "index ?out = [] \<and> rows ?out = []" if "\<forall>c \<in> set cs. \<not> py_eq c v"
  proof -
    from that have "kept ?m = []" by (auto simp: kept_def filter_empty_conv)
    then show ?thesis
      using len rows_boolean_index [OF assms(1) len]
      by (simp add: boolean_index_def take_rows_kept)
  qed
  from out wf names rows none show ?thesis by blast
qed

text \<open>The statement at a table of two divisions: a division that is there, and one that
  is not.\<close>

theorem df_filtered_selects_rows_witness:
  "wf_table ex_depts \<and>
   getitem ex_depts ''departamento''
     = Some [Str ''CUNDINAMARCA'', Str ''ANTIOQUIA'', Str ''CUNDINAMARCA'', Str ''ANTIOQUIA''] \<and>
   df_filtered ex_depts (Str ''ANTIOQUIA'') = Inr ex_antioquia \<and>
   filter (\<lambda>r. case map_of (snd r) ''departamento'' of
                  Some c \<Rightarrow> py_eq c (Str ''ANTIOQUIA'') | None \<Rightarrow> False) (rows ex_depts)
     = [(1, [(''departamento'', Str ''ANTIOQUIA''), (''tasa'', Num (PyFloat 4))]),
        (3, [(''departamento'', Str ''ANTIOQUIA''), (''tasa'', NaN)])] \<and>
   (\<exists>out. df_filtered ex_depts (Str ''BOYACA'') = Inr out \<and> index out = [] \<and> rows out = [])"
proof -
  have present: "filter (\<lambda>r. case map_of (snd r) ''departamento'' of
                  Some c \<Rightarrow> py_eq c (Str ''ANTIOQUIA'') | None \<Rightarrow> False) (rows ex_depts)
        = rows ex_antioquia"
    using df_filtered_selects_rows [OF wf_ex_depts getitem_ex_depts, of "Str ''ANTIOQUIA''"]
    by (auto simp: df_filtered_ex_depts)
  have "\<forall>c \<in> set [Str ''CUNDINAMARCA'', Str ''ANTIOQUIA'', Str ''CUNDINAMARCA'', Str ''ANTIOQUIA'']. 
          \<not> py_eq c (Str ''BOYACA'')"
    by simp
  then have absent: "\<exists>out. df_filtered ex_depts (Str ''BOYACA'') = Inr out \<and> index out = [] \<and> rows out = []"
    using df_filtered_selects_rows [OF wf_ex_depts getitem_ex_depts, of "Str ''BOYACA''"]
    by blast
  show ?thesis
    using present absent wf_ex_depts getitem_ex_depts df_filtered_ex_depts rows_ex_antioquia
    by simp
qed

subsection \<open>C8: the empty table\<close>

text \<open>
  C8, as amended. Cleaning the table with no row and no column returns that table and
  does not raise. The aggregation does raise on it: the table has no column
  \<open>departamento\<close>, and \<open>groupby\<close> raises \<open>KeyError\<close>. In \<open>main\<close> neither step runs on an
  empty load, since an empty table is not stored in the session.
\<close>

theorem empty_table_cleaned_not_aggregated:
  "clean P DataFrame_empty = Inr DataFrame_empty \<and>
   deptos_avg DataFrame_empty selected_metric = Inl (KeyError ''departamento'') \<and>
   main_store_loaded DataFrame_empty s = s"
  by (simp add: clean_def derive_year_def getitem_def DataFrame_empty_def dropna_def
      boolean_index_def notna_rows_def take_rows_def deptos_avg_def main_store_loaded_def
      empty_df_def)

text \<open>C8 as it is stated fails at the empty table: the aggregation raises.\<close>

theorem empty_table_counterexample:
  "clean parse_decimal DataFrame_empty = Inr DataFrame_empty \<and>
   deptos_avg DataFrame_empty ''tasa'' = Inl (KeyError ''departamento'')"
  by (simp add: clean_def derive_year_def getitem_def DataFrame_empty_def dropna_def
      boolean_index_def notna_rows_def take_rows_def deptos_avg_def)

subsection \<open>C9: cleaning twice\<close>




subsection \<open>C10: the raw table is changed\<close>



end
